theory Spec2Isabelle
  imports Main "HOL-Library.Word"
begin

section \<open>Attribute values of the plugin framework\<close>

text \<open>
  The framework's \<^verbatim>\<open>types.String\<close>, \<^verbatim>\<open>types.Bool\<close> and \<^verbatim>\<open>types.Int64\<close> are tri-state:
  null, unknown, or a known value. The accessors \<^verbatim>\<open>ValueString()\<close>, \<^verbatim>\<open>ValueBool()\<close> and
  \<^verbatim>\<open>ValueInt64()\<close> return the zero value of the type on null and on unknown.
\<close>

datatype 'a tfvalue = Null | Unknown | Known 'a

fun IsNull :: "'a tfvalue \<Rightarrow> bool" where
  "IsNull Null = True"
| "IsNull _ = False"

fun IsUnknown :: "'a tfvalue \<Rightarrow> bool" where
  "IsUnknown Unknown = True"
| "IsUnknown _ = False"

fun ValueString :: "string tfvalue \<Rightarrow> string" where
  "ValueString (Known s) = s"
| "ValueString _ = []"

fun ValueBool :: "bool tfvalue \<Rightarrow> bool" where
  "ValueBool (Known b) = b"
| "ValueBool _ = False"

fun ValueInt64 :: "64 word tfvalue \<Rightarrow> 64 word" where
  "ValueInt64 (Known i) = i"
| "ValueInt64 _ = 0"

section \<open>Default-value plan modifiers\<close>

text \<open>
  A plan modifier receives the declared (config) value and the planned value; the
  response's planned value starts as the request's planned value, and the modifier either
  returns early (leaving it) or overwrites it with the default.
\<close>

record 'a PlanRequest =
  ConfigValue :: "'a tfvalue"
  PlanValue :: "'a tfvalue"

definition PlanModifyString :: "string \<Rightarrow> string PlanRequest \<Rightarrow> string tfvalue" where
  "PlanModifyString Default req =
     (if \<not> IsNull (PlanValue req) \<and> \<not> (IsNull (ConfigValue req) \<and> IsUnknown (PlanValue req))
      then PlanValue req
      else Known Default)"

definition PlanModifyInt64 :: "64 word \<Rightarrow> (64 word) PlanRequest \<Rightarrow> (64 word) tfvalue" where
  "PlanModifyInt64 Default req =
     (if \<not> IsNull (PlanValue req) \<and> \<not> (IsNull (ConfigValue req) \<and> IsUnknown (PlanValue req))
      then PlanValue req
      else Known Default)"

definition PlanModifyBool :: "bool \<Rightarrow> bool PlanRequest \<Rightarrow> bool tfvalue" where
  "PlanModifyBool Default req =
     (if \<not> IsNull (PlanValue req) \<and> \<not> (IsNull (ConfigValue req) \<and> IsUnknown (PlanValue req))
      then PlanValue req
      else Known Default)"

text \<open>The defaults the user schema attaches to its three optional computed attributes.\<close>

definition op_mask_default :: string where
  "op_mask_default = ''read, write, delete''"

definition max_buckets_default :: "64 word" where
  "max_buckets_default = 1000"

definition suspended_default :: bool where
  "suspended_default = False"

section \<open>Identity: concatenation at Create, decomposition at Read\<close>

text \<open>
  \<^verbatim>\<open>strings.SplitN(s, sep, n)\<close> for a one-character separator: at most \<open>n\<close> pieces, the
  last one holding the unsplit rest; no piece at all for \<open>n = 0\<close>.
\<close>

fun SplitN :: "string \<Rightarrow> char \<Rightarrow> nat \<Rightarrow> string list" where
  "SplitN s sep 0 = []"
| "SplitN s sep (Suc 0) = [s]"
| "SplitN s sep (Suc (Suc n)) =
     (if sep \<in> set s
      then takeWhile (\<lambda>c. c \<noteq> sep) s # SplitN (tl (dropWhile (\<lambda>c. c \<noteq> sep) s)) sep (Suc n)
      else [s])"

text \<open>The remote id Create sends: the bare username, or tenant, dollar sign, username.\<close>

definition create_id :: "string tfvalue \<Rightarrow> string tfvalue \<Rightarrow> string" where
  "create_id tenant username =
     (if IsNull tenant then ValueString username
      else ValueString tenant @ ''$'' @ ValueString username)"

text \<open>The (tenant, username) pair Read stores for a remote id.\<close>

definition read_identity :: "string \<Rightarrow> string tfvalue \<times> string tfvalue" where
  "read_identity uid =
     (let splittedId = SplitN uid (CHR ''$'') 2
      in if length splittedId = 2
         then (Known (splittedId ! 0), Known (splittedId ! 1))
         else (Null, Known uid))"

section \<open>Remote API structures and errors\<close>

text \<open>
  The request and response structures of the administrative client, with the fields this
  provider reads or writes. A Go slice is a list (the nil slice is the empty list), a
  pointer field is an option, and Go's \<^verbatim>\<open>int\<close> is the 64-bit signed integer of the
  targets the provider is built for.
\<close>

record UserCapSpec =
  Cap_Type :: string
  Cap_Perm :: string

record UserKeySpec =
  Key_UID :: string
  Key_AccessKey :: string
  Key_SecretKey :: string
  Key_KeyType :: string
  Key_GenerateKey :: "bool option"

record admin_User =
  User_ID :: string
  User_DisplayName :: string
  User_Email :: string
  User_OpMask :: string
  User_KeyType :: string
  User_GenerateKey :: "bool option"
  User_Caps :: "UserCapSpec list"
  User_MaxBuckets :: "64 word option"
  User_Suspended :: "64 word option"
  User_Keys :: "UserKeySpec list"
  User_PurgeData :: "64 word option"

text \<open>The zero value of \<^verbatim>\<open>admin.User\<close>, the start of every composite literal.\<close>

definition zero_User :: admin_User where
  "zero_User = \<lparr>User_ID = [], User_DisplayName = [], User_Email = [], User_OpMask = [],
     User_KeyType = [], User_GenerateKey = None, User_Caps = [], User_MaxBuckets = None,
     User_Suspended = None, User_Keys = [], User_PurgeData = None\<rparr>"

text \<open>
  A failed remote call yields a Go \<^verbatim>\<open>error\<close>: either an API error carrying a code (the
  reason of the administrative API, the error code of the object-storage API) or any other
  failure; both render as text with \<^verbatim>\<open>err.Error()\<close>.
\<close>

datatype remote_error = APIError string string | OtherError string

fun err_Error :: "remote_error \<Rightarrow> string" where
  "err_Error (APIError code text) = text"
| "err_Error (OtherError text) = text"

text \<open>\<^verbatim>\<open>errors.Is(err, admin.ErrNoSuchUser)\<close>: the API error whose reason is \<^verbatim>\<open>NoSuchUser\<close>.\<close>

fun is_ErrNoSuchUser :: "remote_error \<Rightarrow> bool" where
  "is_ErrNoSuchUser (APIError code text) = (code = ''NoSuchUser'')"
| "is_ErrNoSuchUser (OtherError text) = False"

text \<open>
  The remote system is a state \<open>'r\<close> that every call may change; a client is the record of
  its calls, each taking the request and the remote state and returning the response and
  the new remote state.
\<close>

record 'r admin_api =
  api_CreateUser :: "admin_User \<Rightarrow> 'r \<Rightarrow> (remote_error + admin_User) \<times> 'r"
  api_GetUser :: "admin_User \<Rightarrow> 'r \<Rightarrow> (remote_error + admin_User) \<times> 'r"
  api_ModifyUser :: "admin_User \<Rightarrow> 'r \<Rightarrow> (remote_error + admin_User) \<times> 'r"
  api_RemoveUser :: "admin_User \<Rightarrow> 'r \<Rightarrow> remote_error option \<times> 'r"
  api_RemoveKey :: "UserKeySpec \<Rightarrow> 'r \<Rightarrow> remote_error option \<times> 'r"
  api_CreateKey :: "UserKeySpec \<Rightarrow> 'r \<Rightarrow> (remote_error + UserKeySpec list option) \<times> 'r"

record 'r s3_api =
  api_HeadBucket :: "string \<Rightarrow> 'r \<Rightarrow> remote_error option \<times> 'r"
  api_DeleteBucket :: "string \<Rightarrow> 'r \<Rightarrow> remote_error option \<times> 'r"

datatype call =
    CallCreateUser admin_User
  | CallGetUser admin_User
  | CallModifyUser admin_User
  | CallRemoveUser admin_User
  | CallRemoveKey UserKeySpec
  | CallCreateKey UserKeySpec
  | CallHeadBucket string
  | CallDeleteBucket string

section \<open>Responses of a resource operation\<close>

datatype severity = SeverityError | SeverityWarning

record diagnostic =
  Severity :: severity
  AttributePath :: "string option"
  Summary :: string
  Detail :: string

text \<open>
  What an operation did to the stored record: left it as it was, removed it, or replaced
  it with the given record.
\<close>

datatype 'm state_result = StateUnchanged | StateRemoved | StateSet 'm

text \<open>
  The run of one operation: the remote state, the remote calls issued so far (oldest
  first), the diagnostics, the private key/value data and the state decision.
\<close>

record ('r, 'm) response =
  Remote :: 'r
  Calls :: "call list"
  Diagnostics :: "diagnostic list"
  Private :: "string \<rightharpoonup> string"
  State :: "'m state_result"

definition new_response :: "(string \<rightharpoonup> string) \<Rightarrow> 'r \<Rightarrow> ('r, 'm) response" where
  "new_response private r =
     \<lparr>Remote = r, Calls = [], Diagnostics = [], Private = private, State = StateUnchanged\<rparr>"

text \<open>Appending a diagnostic skips one that is already in the list.\<close>

definition Append_diag :: "diagnostic \<Rightarrow> diagnostic list \<Rightarrow> diagnostic list" where
  "Append_diag d ds = (if d \<in> set ds then ds else ds @ [d])"

definition AddError :: "string \<Rightarrow> string \<Rightarrow> ('r, 'm) response \<Rightarrow> ('r, 'm) response" where
  "AddError summary detail resp =
     resp\<lparr>Diagnostics := Append_diag
       \<lparr>Severity = SeverityError, AttributePath = None, Summary = summary, Detail = detail\<rparr>
       (Diagnostics resp)\<rparr>"

definition AddAttributeError ::
  "string \<Rightarrow> string \<Rightarrow> string \<Rightarrow> ('r, 'm) response \<Rightarrow> ('r, 'm) response" where
  "AddAttributeError path summary detail resp =
     resp\<lparr>Diagnostics := Append_diag
       \<lparr>Severity = SeverityError, AttributePath = Some path, Summary = summary, Detail = detail\<rparr>
       (Diagnostics resp)\<rparr>"

definition HasError :: "diagnostic list \<Rightarrow> bool" where
  "HasError ds = list_ex (\<lambda>d. Severity d = SeverityError) ds"

definition SetKey :: "string \<Rightarrow> string \<Rightarrow> ('r, 'm) response \<Rightarrow> ('r, 'm) response" where
  "SetKey key val resp = resp\<lparr>Private := (Private resp)(key \<mapsto> val)\<rparr>"

definition State_Set :: "'m \<Rightarrow> ('r, 'm) response \<Rightarrow> ('r, 'm) response" where
  "State_Set data resp = resp\<lparr>State := StateSet data\<rparr>"

definition RemoveResource :: "('r, 'm) response \<Rightarrow> ('r, 'm) response" where
  "RemoveResource resp = resp\<lparr>State := StateRemoved\<rparr>"

definition issue :: "call \<Rightarrow> 'r \<Rightarrow> ('r, 'm) response \<Rightarrow> ('r, 'm) response" where
  "issue c r' resp = resp\<lparr>Remote := r', Calls := Calls resp @ [c]\<rparr>"

text \<open>An operation either returns its response or panics (a nil dereference).\<close>

datatype 'a exit = Returns 'a | Panics 'a

fun panicked :: "'a exit \<Rightarrow> bool" where
  "panicked (Panics x) = True"
| "panicked (Returns x) = False"

fun the_response :: "'a exit \<Rightarrow> 'a" where
  "the_response (Returns x) = x"
| "the_response (Panics x) = x"

text \<open>The verb \<^verbatim>\<open>%d\<close> of \<^verbatim>\<open>fmt.Sprintf\<close> on a length, and the quote around \<^verbatim>\<open>'%s'\<close>.\<close>

function show_nat :: "nat \<Rightarrow> string" where
  "show_nat n =
     (if n < 10 then [''0123456789'' ! n]
      else show_nat (n div 10) @ [''0123456789'' ! (n mod 10)])"
  by pat_completeness auto
termination
  by (relation "measure id") auto

declare show_nat.simps [simp del]

definition quote :: string where
  "quote = [CHR 0x27]"

section \<open>The user resource\<close>

record UserCapModel =
  Type :: "string tfvalue"
  Perm :: "string tfvalue"

record UserResourceModel =
  UserId :: "string tfvalue"
  Username :: "string tfvalue"
  DisplayName :: "string tfvalue"
  Email :: "string tfvalue"
  GenerateS3Credentials :: "bool tfvalue"
  ExclusiveS3Credentials :: "bool tfvalue"
  Caps :: "UserCapModel list"
  OpMask :: "string tfvalue"
  MaxBuckets :: "(64 word) tfvalue"
  Suspended :: "bool tfvalue"
  Tenant :: "string tfvalue"
  AccessKey :: "string tfvalue"
  SecretKey :: "string tfvalue"
  PurgeDataOnDelete :: "bool tfvalue"

definition accessKeyBytes :: string where
  "accessKeyBytes = ''0123456789ABCDEFGHIJKLMNOPQRSTUVWXYZ''"

text \<open>
  The caps of a create or modify request, built from the declared caps: the loop of Create
  and of Update, which fills both fields of every sent cap from the declared cap's type.
\<close>

definition request_caps :: "UserCapModel list \<Rightarrow> UserCapSpec list" where
  "request_caps caps =
     (if length caps > 0
      then map (\<lambda>c. \<lparr>Cap_Type = ValueString (Type c), Cap_Perm = ValueString (Type c)\<rparr>) caps
      else [])"

subsection \<open>Create\<close>

definition create_request :: "UserResourceModel \<Rightarrow> admin_User" where
  "create_request data =
     (let generateKey = (ValueBool (GenerateS3Credentials data) \<or> IsNull (GenerateS3Credentials data))
      in zero_User\<lparr>
           User_DisplayName := ValueString (DisplayName data),
           User_Email := ValueString (Email data),
           User_OpMask := ValueString (OpMask data),
           User_ID := create_id (Tenant data) (Username data),
           User_KeyType := (if generateKey then ''s3'' else []),
           User_GenerateKey := Some generateKey,
           User_Caps := request_caps (Caps data),
           User_MaxBuckets := Some (ValueInt64 (MaxBuckets data)),
           User_Suspended := Some (if ValueBool (Suspended data) then 1 else 0)\<rparr>)"

definition key_count_detail :: "nat \<Rightarrow> string" where
  "key_count_detail n = ''expected one s3 api key pair in api response, got '' @ show_nat n"

definition UserResource_Create ::
  "'r admin_api \<Rightarrow> UserResourceModel \<Rightarrow> 'r \<Rightarrow> ('r, UserResourceModel) response" where
  "UserResource_Create api data r =
     (let generateKey = (ValueBool (GenerateS3Credentials data) \<or> IsNull (GenerateS3Credentials data));
          rgwUser = create_request data;
          (res, r') = api_CreateUser api rgwUser r;
          resp = issue (CallCreateUser rgwUser) r' (new_response Map.empty r)
      in case res of
           Inl err \<Rightarrow> AddError ''could not create user'' (err_Error err) resp
         | Inr createdUser \<Rightarrow>
             (let data1 = data\<lparr>UserId := Known (User_ID createdUser)\<rparr>
              in if generateKey
                 then (if length (User_Keys createdUser) = 1
                       then State_Set
                              (data1\<lparr>AccessKey := Known (Key_AccessKey (User_Keys createdUser ! 0)),
                                     SecretKey := Known (Key_SecretKey (User_Keys createdUser ! 0))\<rparr>)
                              resp
                       else State_Set data1
                              (AddAttributeError ''secret_key''
                                 ''api didn't return exactly one s3 key pair''
                                 (key_count_detail (length (User_Keys createdUser)))
                                 (AddAttributeError ''access_key''
                                    ''api didn't return exactly one s3 key pair''
                                    (key_count_detail (length (User_Keys createdUser)))
                                    resp)))
                 else State_Set (data1\<lparr>AccessKey := Null, SecretKey := Null\<rparr>) resp))"

subsection \<open>Read\<close>

text \<open>
  The credential part of Read. The loop over the remote keys stops at the first key whose
  access key is the recorded one.
\<close>

definition read_credentials ::
  "admin_User \<Rightarrow> UserResourceModel \<Rightarrow> ('r, UserResourceModel) response
     \<Rightarrow> UserResourceModel \<times> ('r, UserResourceModel) response" where
  "read_credentials user data resp =
     (if ValueBool (GenerateS3Credentials data) \<or> IsNull (GenerateS3Credentials data)
      then
        (let (found, data1, resp1) =
               (if IsNull (AccessKey data) \<or> IsUnknown (AccessKey data)
                then (False, data, SetKey ''mark_unknown_access_key'' ''1'' resp)
                else (case find (\<lambda>k. Key_AccessKey k = ValueString (AccessKey data)) (User_Keys user) of
                        None \<Rightarrow> (False, data, resp)
                      | Some k \<Rightarrow>
                          (True, data\<lparr>SecretKey := Known (Key_SecretKey k)\<rparr>,
                           SetKey ''mark_unknown_secret_key'' ''0''
                             (SetKey ''mark_unknown_access_key'' ''0'' resp))));
             resp2 = (if \<not> found then SetKey ''mark_unknown_secret_key'' ''1'' resp1 else resp1);
             data2 = (if length (User_Keys user) > 1 \<or> (length (User_Keys user) = 1 \<and> \<not> found)
                      then data1\<lparr>ExclusiveS3Credentials := Known False\<rparr>
                      else data1)
         in (data2, resp2))
      else (data\<lparr>AccessKey := Null, SecretKey := Null\<rparr>,
            SetKey ''mark_unknown_secret_key'' ''0''
              (SetKey ''mark_unknown_access_key'' ''0'' resp)))"

definition read_attributes :: "admin_User \<Rightarrow> UserResourceModel \<Rightarrow> UserResourceModel" where
  "read_attributes user data =
     (let (tenant, username) = read_identity (User_ID user);
          data1 = data\<lparr>Username := username, Tenant := tenant,
                       DisplayName := Known (User_DisplayName user)\<rparr>;
          data2 = (if length (User_Email user) > 0 \<or> \<not> IsNull (Email data1)
                   then data1\<lparr>Email := Known (User_Email user)\<rparr> else data1);
          data3 = (if User_Email user = [] \<and> length (ValueString (Email data2)) > 0
                   then data2\<lparr>Email := Known []\<rparr> else data2);
          data4 = (if length (User_Caps user) > 0
                   then data3\<lparr>Caps := map (\<lambda>c. \<lparr>Type = Known (Cap_Type c), Perm = Known (Cap_Perm c)\<rparr>)
                                         (User_Caps user)\<rparr>
                   else data3);
          data5 = (case User_MaxBuckets user of
                     Some m \<Rightarrow> data4\<lparr>MaxBuckets := Known m\<rparr>
                   | None \<Rightarrow> data4)
      in case User_Suspended user of
           Some s \<Rightarrow> data5\<lparr>Suspended := Known (\<not> sint s < 1)\<rparr>
         | None \<Rightarrow> data5)"

definition UserResource_Read ::
  "'r admin_api \<Rightarrow> UserResourceModel \<Rightarrow> (string \<rightharpoonup> string) \<Rightarrow> 'r
     \<Rightarrow> ('r, UserResourceModel) response" where
  "UserResource_Read api data private r =
     (let reqUser = zero_User\<lparr>User_ID := ValueString (UserId data)\<rparr>;
          (res, r') = api_GetUser api reqUser r;
          resp = issue (CallGetUser reqUser) r' (new_response private r)
      in case res of
           Inl err \<Rightarrow>
             (if is_ErrNoSuchUser err then RemoveResource resp
              else AddError ''could not get user'' (err_Error err) resp)
         | Inr user \<Rightarrow>
             (if ValueString (UserId data) \<noteq> User_ID user
              then AddError ''api returned wrong user''
                     (''expected user '' @ quote @ ValueString (UserId data) @ quote @
                      '', got '' @ quote @ User_ID user @ quote)
                     resp
              else (let (data', resp') = read_credentials user (read_attributes user data) resp
                    in State_Set data' resp')))"

subsection \<open>Update\<close>

definition update_request :: "UserResourceModel \<Rightarrow> admin_User" where
  "update_request data =
     zero_User\<lparr>
       User_ID := ValueString (UserId data),
       User_DisplayName := ValueString (DisplayName data),
       User_Email := ValueString (Email data),
       User_OpMask := ValueString (OpMask data),
       User_GenerateKey := Some False,
       User_Caps := request_caps (Caps data),
       User_MaxBuckets := Some (ValueInt64 (MaxBuckets data)),
       User_Suspended := Some (if ValueBool (Suspended data) then 1 else 0)\<rparr>"

text \<open>
  One round of the loop over the keys of the modify response: recover the secret of the
  key that matches the recorded access key, or remove the key when the credentials are
  exclusive; a failed removal adds a diagnostic and the loop goes on.
\<close>

definition update_key ::
  "'r admin_api \<Rightarrow> string \<Rightarrow> UserKeySpec
     \<Rightarrow> UserResourceModel \<times> ('r, UserResourceModel) response
     \<Rightarrow> UserResourceModel \<times> ('r, UserResourceModel) response" where
  "update_key api uid k st =
     (let data = fst st; resp = snd st
      in if \<not> IsNull (AccessKey data) \<and> IsUnknown (SecretKey data) \<and>
            Key_AccessKey k = ValueString (AccessKey data)
         then (data\<lparr>SecretKey := Known (Key_SecretKey k)\<rparr>,
               SetKey ''mark_unknown_secret_key'' ''0'' resp)
         else if ValueBool (ExclusiveS3Credentials data) \<or> IsNull (ExclusiveS3Credentials data)
         then (let k' = k\<lparr>Key_UID := uid\<rparr>;
                   (err, r') = api_RemoveKey api k' (Remote resp);
                   resp1 = issue (CallRemoveKey k') r' resp
               in case err of
                    None \<Rightarrow> (data, resp1)
                  | Some e \<Rightarrow>
                      (data, AddError (''could not remove access key '' @ quote @ Key_AccessKey k @ quote)
                               (err_Error e) resp1))
         else (data, resp))"

fun update_keys ::
  "'r admin_api \<Rightarrow> string \<Rightarrow> UserKeySpec list
     \<Rightarrow> UserResourceModel \<times> ('r, UserResourceModel) response
     \<Rightarrow> UserResourceModel \<times> ('r, UserResourceModel) response" where
  "update_keys api uid [] st = st"
| "update_keys api uid (k # ks) st = update_keys api uid ks (update_key api uid k st)"

text \<open>
  A fresh access key: twenty characters of the alphabet, the i-th chosen by the i-th draw
  \<open>rnd i\<close> of the random source, reduced to an index as \<^verbatim>\<open>rand.Intn\<close> does.
\<close>

definition random_access_key :: "(nat \<Rightarrow> nat) \<Rightarrow> string" where
  "random_access_key rnd =
     map (\<lambda>i. accessKeyBytes ! (rnd i mod length accessKeyBytes)) [0..<20]"

text \<open>
  The key creation of Update, entered while the secret is still unknown. The nil check
  guards the scan of the response only: the error message takes the length of the
  response behind the pointer, so a nil response with no error panics there.
\<close>

definition create_key ::
  "'r admin_api \<Rightarrow> (nat \<Rightarrow> nat) \<Rightarrow> admin_User
     \<Rightarrow> UserResourceModel \<Rightarrow> ('r, UserResourceModel) response
     \<Rightarrow> ('r, UserResourceModel) response exit" where
  "create_key api rnd user data resp =
     (let data1 = (if IsUnknown (AccessKey data)
                   then data\<lparr>AccessKey := Known (random_access_key rnd)\<rparr> else data);
          spec = \<lparr>Key_UID = User_ID user, Key_AccessKey = ValueString (AccessKey data1),
                  Key_SecretKey = [], Key_KeyType = ''s3'', Key_GenerateKey = Some True\<rparr>;
          (res, r') = api_CreateKey api spec (Remote resp);
          resp1 = issue (CallCreateKey spec) r' resp
      in case res of
           Inl err \<Rightarrow> Returns (AddError ''could not generate s3 credentials'' (err_Error err) resp1)
         | Inr keys \<Rightarrow>
             (let data2 =
                    (case keys of
                       None \<Rightarrow> data1
                     | Some ks \<Rightarrow>
                         (case find (\<lambda>k. Key_AccessKey k = ValueString (AccessKey data1)) ks of
                            None \<Rightarrow> data1
                          | Some k \<Rightarrow> data1\<lparr>SecretKey := Known (Key_SecretKey k)\<rparr>))
              in if IsUnknown (SecretKey data2)
                 then (case keys of
                         None \<Rightarrow> Panics resp1
                       | Some ks \<Rightarrow>
                           Returns (State_Set data2
                             (AddError ''could not find expected s3 credentials in api response''
                                (''got '' @ show_nat (length ks) @
                                 '' s3 key pairs back from api, none of the matched the access key '' @
                                 quote @ ValueString (AccessKey data2) @ quote)
                                resp1)))
                 else Returns (State_Set data2
                        (SetKey ''mark_unknown_secret_key'' ''0''
                           (SetKey ''mark_unknown_access_key'' ''0'' resp1)))))"

definition UserResource_Update ::
  "'r admin_api \<Rightarrow> (nat \<Rightarrow> nat) \<Rightarrow> UserResourceModel \<Rightarrow> (string \<rightharpoonup> string) \<Rightarrow> 'r
     \<Rightarrow> ('r, UserResourceModel) response exit" where
  "UserResource_Update api rnd data private r =
     (let update = update_request data;
          (res, r') = api_ModifyUser api update r;
          resp = issue (CallModifyUser update) r' (new_response private r)
      in case res of
           Inl err \<Rightarrow> Returns (AddError ''could not modify user'' (err_Error err) resp)
         | Inr user \<Rightarrow>
             (if IsUnknown (SecretKey data)
              then (let (data1, resp1) = update_keys api (User_ID user) (User_Keys user) (data, resp)
                    in if IsUnknown (SecretKey data1)
                       then create_key api rnd user data1 resp1
                       else Returns (State_Set data1 resp1))
              else Returns (State_Set data resp)))"

subsection \<open>Delete\<close>

definition UserResource_Delete ::
  "'r admin_api \<Rightarrow> UserResourceModel \<Rightarrow> 'r \<Rightarrow> ('r, UserResourceModel) response" where
  "UserResource_Delete api data r =
     (let purgeData = (if ValueBool (PurgeDataOnDelete data) then 1 else 0);
          reqUser = zero_User\<lparr>User_ID := ValueString (UserId data), User_PurgeData := Some purgeData\<rparr>;
          (err, r') = api_RemoveUser api reqUser r;
          resp = issue (CallRemoveUser reqUser) r' (new_response Map.empty r)
      in case err of
           None \<Rightarrow> resp
         | Some e \<Rightarrow>
             (if is_ErrNoSuchUser e then resp
              else AddError ''could not delete user'' (err_Error e) resp))"

section \<open>The bucket resource\<close>

record BucketResourceModel =
  BucketId :: "string tfvalue"
  BucketName :: "string tfvalue"

text \<open>
  \<^verbatim>\<open>errors.As(err, &ae)\<close> succeeds on an API error, whose \<^verbatim>\<open>ErrorCode()\<close> Read then
  compares with the status codes 404 and 403.
\<close>

definition BucketResource_Read ::
  "'r s3_api \<Rightarrow> BucketResourceModel \<Rightarrow> (string \<rightharpoonup> string) \<Rightarrow> 'r
     \<Rightarrow> ('r, BucketResourceModel) response" where
  "BucketResource_Read api data private r =
     (let bucket = ValueString (BucketId data);
          (err, r') = api_HeadBucket api bucket r;
          resp = issue (CallHeadBucket bucket) r' (new_response private r)
      in case err of
           Some e \<Rightarrow>
             (case e of
                APIError code text \<Rightarrow>
                  (if code = ''404'' then RemoveResource resp
                   else if code = ''403''
                   then AddError ''no permission to head bucket'' (err_Error e) resp
                   else AddError ''could not head bucket'' (err_Error e) resp)
              | OtherError text \<Rightarrow> AddError ''could not head bucket'' (err_Error e) resp)
         | None \<Rightarrow> State_Set (data\<lparr>BucketName := Known bucket\<rparr>) resp)"

definition BucketResource_Delete ::
  "'r s3_api \<Rightarrow> BucketResourceModel \<Rightarrow> 'r \<Rightarrow> ('r, BucketResourceModel) response" where
  "BucketResource_Delete api data r =
     (let bucket = ValueString (BucketId data);
          (err, r') = api_DeleteBucket api bucket r;
          resp = issue (CallDeleteBucket bucket) r' (new_response Map.empty r)
      in case err of
           Some e \<Rightarrow> AddError ''could not delete bucket'' (err_Error e) resp
         | None \<Rightarrow> resp)"

section \<open>Answers of the remote system to a run of removals\<close>

text \<open>
  What the remote system answers when asked to remove each key of a list in turn, under
  the user id \<open>uid\<close>, every removal starting from the state the one before left; and the
  diagnostics of the removals that failed, in the order of the keys.
\<close>

fun remove_each ::
  "'r admin_api \<Rightarrow> string \<Rightarrow> UserKeySpec list \<Rightarrow> 'r \<Rightarrow> remote_error option list \<times> 'r" where
  "remove_each api uid [] r = ([], r)"
| "remove_each api uid (k # ks) r =
     (let a = api_RemoveKey api (k\<lparr>Key_UID := uid\<rparr>) r;
          rest = remove_each api uid ks (snd a)
      in (fst a # fst rest, snd rest))"

fun removal_diagnostics :: "UserKeySpec list \<Rightarrow> remote_error option list \<Rightarrow> diagnostic list" where
  "removal_diagnostics (k # ks) (None # as) = removal_diagnostics ks as"
| "removal_diagnostics (k # ks) (Some e # as) =
     \<lparr>Severity = SeverityError, AttributePath = None,
      Summary = ''could not remove access key '' @ quote @ Key_AccessKey k @ quote,
      Detail = err_Error e\<rparr> # removal_diagnostics ks as"
| "removal_diagnostics ks as = []"

section \<open>Concrete inputs\<close>

text \<open>
  A declared user, and a scripted remote system whose state counts the calls it has
  served: every user call answers \<open>user\<close>, every removal answers \<open>rm\<close> and every key
  creation answers \<open>ck\<close>.
\<close>

definition alice :: UserResourceModel where
  "alice = \<lparr>UserId = Known ''alice'', Username = Known ''alice'', DisplayName = Known ''Alice'',
     Email = Null, GenerateS3Credentials = Null, ExclusiveS3Credentials = Null, Caps = [],
     OpMask = Known ''read, write, delete'', MaxBuckets = Known 1000, Suspended = Known False,
     Tenant = Null, AccessKey = Known ''AK1'', SecretKey = Unknown, PurgeDataOnDelete = Null\<rparr>"

definition s3_key :: "string \<Rightarrow> string \<Rightarrow> UserKeySpec" where
  "s3_key ak sk = \<lparr>Key_UID = [], Key_AccessKey = ak, Key_SecretKey = sk, Key_KeyType = ''s3'',
     Key_GenerateKey = None\<rparr>"

definition remote_user :: "string \<Rightarrow> UserKeySpec list \<Rightarrow> admin_User" where
  "remote_user uid ks = zero_User\<lparr>User_ID := uid, User_Keys := ks\<rparr>"

definition scripted_admin ::
  "remote_error + admin_User \<Rightarrow> remote_error option \<Rightarrow> remote_error + UserKeySpec list option
     \<Rightarrow> nat admin_api" where
  "scripted_admin user rm ck =
     \<lparr>api_CreateUser = (\<lambda>u r. (user, Suc r)),
      api_GetUser = (\<lambda>u r. (user, Suc r)),
      api_ModifyUser = (\<lambda>u r. (user, Suc r)),
      api_RemoveUser = (\<lambda>u r. (rm, Suc r)),
      api_RemoveKey = (\<lambda>k r. (rm, Suc r)),
      api_CreateKey = (\<lambda>k r. (ck, Suc r))\<rparr>"

text \<open>
  The same remote system, except that the removal of the key \<open>bad\<close> fails.
\<close>

definition failing_removal_admin ::
  "remote_error + admin_User \<Rightarrow> string \<Rightarrow> remote_error + UserKeySpec list option
     \<Rightarrow> nat admin_api" where
  "failing_removal_admin user bad ck =
     (scripted_admin user None ck)
       \<lparr>api_RemoveKey :=
          (\<lambda>k r. (if Key_AccessKey k = bad then Some (OtherError ''timeout'') else None, Suc r))\<rparr>"

definition scripted_s3 :: "remote_error option \<Rightarrow> nat s3_api" where
  "scripted_s3 answer =
     \<lparr>api_HeadBucket = (\<lambda>b r. (answer, Suc r)),
      api_DeleteBucket = (\<lambda>b r. (answer, Suc r))\<rparr>"

definition test_bucket :: BucketResourceModel where
  "test_bucket = \<lparr>BucketId = Known ''test'', BucketName = Known ''test''\<rparr>"

section \<open>Properties\<close>

subsection \<open>Projections of a response\<close>

lemma response_simps [simp]:
  "Calls (issue c r' resp) = Calls resp @ [c]"
  "Remote (issue c r' resp) = r'"
  "Diagnostics (issue c r' resp) = Diagnostics resp"
  "Private (issue c r' resp) = Private resp"
  "State (issue c r' resp) = State resp"
  "Calls (new_response p r) = []"
  "Diagnostics (new_response p r) = []"
  "State (new_response p r) = StateUnchanged"
  "Private (new_response p r) = p"
  "Remote (new_response p r) = r"
  "Calls (State_Set d resp) = Calls resp"
  "Diagnostics (State_Set d resp) = Diagnostics resp"
  "State (State_Set d resp) = StateSet d"
  "Private (State_Set d resp) = Private resp"
  "Remote (State_Set d resp) = Remote resp"
  "Calls (RemoveResource resp) = Calls resp"
  "Diagnostics (RemoveResource resp) = Diagnostics resp"
  "State (RemoveResource resp) = StateRemoved"
  "Calls (SetKey k v resp) = Calls resp"
  "Diagnostics (SetKey k v resp) = Diagnostics resp"
  "State (SetKey k v resp) = State resp"
  "Remote (SetKey k v resp) = Remote resp"
  "Private (SetKey k v resp) = (Private resp)(k \<mapsto> v)"
  "Calls (AddError s t resp) = Calls resp"
  "State (AddError s t resp) = State resp"
  "Remote (AddError s t resp) = Remote resp"
  "Private (AddError s t resp) = Private resp"
  "Calls (AddAttributeError a s t resp) = Calls resp"
  "State (AddAttributeError a s t resp) = State resp"
  "Remote (AddAttributeError a s t resp) = Remote resp"
  "Private (AddAttributeError a s t resp) = Private resp"
  by (simp_all add: issue_def new_response_def State_Set_def RemoveResource_def SetKey_def
        AddError_def AddAttributeError_def)

lemma Diagnostics_AddError:
  "Diagnostics (AddError s t resp) =
     Append_diag \<lparr>Severity = SeverityError, AttributePath = None, Summary = s, Detail = t\<rparr>
       (Diagnostics resp)"
  by (simp add: AddError_def)

lemma Diagnostics_AddAttributeError:
  "Diagnostics (AddAttributeError a s t resp) =
     Append_diag \<lparr>Severity = SeverityError, AttributePath = Some a, Summary = s, Detail = t\<rparr>
       (Diagnostics resp)"
  by (simp add: AddAttributeError_def)

lemma HasError_Append_diag:
  "Severity d = SeverityError \<Longrightarrow> HasError (Append_diag d ds)"
  by (auto simp: HasError_def Append_diag_def list_ex_iff)

lemma HasError_Nil [simp]: "\<not> HasError []"
  by (simp add: HasError_def)

lemma show_nat_digit: "n < 10 \<Longrightarrow> show_nat n = [''0123456789'' ! n]"
  by (simp add: show_nat.simps)

subsection \<open>Default-value resolution\<close>

text \<open>
  C4 (as amended). For each optional computed user field (\<open>op_mask\<close> with default
  \<open>read, write, delete\<close>, \<open>max_buckets\<close> with default 1000, \<open>suspended\<close> with default
  false): when the declared value is non-null and the planned value carries it, the
  resolver returns the declared value verbatim; it sets the planned value to the default
  when the planned value is null, or is unknown with a null declared value; and in every
  other case it leaves the planned value untouched.
\<close>

theorem default_resolution:
  "(\<not> IsNull (ConfigValue sr) \<and> PlanValue sr = ConfigValue sr
      \<longrightarrow> PlanModifyString op_mask_default sr = ConfigValue sr) \<and>
   (IsNull (PlanValue sr) \<or> (IsUnknown (PlanValue sr) \<and> IsNull (ConfigValue sr))
      \<longrightarrow> PlanModifyString op_mask_default sr = Known ''read, write, delete'') \<and>
   (\<not> (IsNull (PlanValue sr) \<or> (IsUnknown (PlanValue sr) \<and> IsNull (ConfigValue sr)))
      \<longrightarrow> PlanModifyString op_mask_default sr = PlanValue sr) \<and>
   (\<not> IsNull (ConfigValue ir) \<and> PlanValue ir = ConfigValue ir
      \<longrightarrow> PlanModifyInt64 max_buckets_default ir = ConfigValue ir) \<and>
   (IsNull (PlanValue ir) \<or> (IsUnknown (PlanValue ir) \<and> IsNull (ConfigValue ir))
      \<longrightarrow> PlanModifyInt64 max_buckets_default ir = Known 1000) \<and>
   (\<not> (IsNull (PlanValue ir) \<or> (IsUnknown (PlanValue ir) \<and> IsNull (ConfigValue ir)))
      \<longrightarrow> PlanModifyInt64 max_buckets_default ir = PlanValue ir) \<and>
   (\<not> IsNull (ConfigValue br) \<and> PlanValue br = ConfigValue br
      \<longrightarrow> PlanModifyBool suspended_default br = ConfigValue br) \<and>
   (IsNull (PlanValue br) \<or> (IsUnknown (PlanValue br) \<and> IsNull (ConfigValue br))
      \<longrightarrow> PlanModifyBool suspended_default br = Known False) \<and>
   (\<not> (IsNull (PlanValue br) \<or> (IsUnknown (PlanValue br) \<and> IsNull (ConfigValue br)))
      \<longrightarrow> PlanModifyBool suspended_default br = PlanValue br)"
  by (auto simp: PlanModifyString_def PlanModifyInt64_def PlanModifyBool_def
        op_mask_default_def max_buckets_default_def suspended_default_def)

text \<open>
  The three cases at concrete requests: a declared value, an unset value planned unknown,
  and an unset value whose planned value was resolved by an earlier pass.
\<close>

theorem default_resolution_witness:
  "PlanModifyString op_mask_default \<lparr>ConfigValue = Known ''read'', PlanValue = Known ''read''\<rparr>
     = Known ''read'' \<and>
   PlanModifyInt64 max_buckets_default \<lparr>ConfigValue = Null, PlanValue = Unknown\<rparr> = Known 1000 \<and>
   PlanModifyInt64 max_buckets_default \<lparr>ConfigValue = Null, PlanValue = Null\<rparr> = Known 1000 \<and>
   PlanModifyInt64 max_buckets_default \<lparr>ConfigValue = Null, PlanValue = Known 500\<rparr> = Known 500 \<and>
   PlanModifyBool suspended_default \<lparr>ConfigValue = Known True, PlanValue = Known True\<rparr>
     = Known True \<and>
   PlanModifyBool suspended_default \<lparr>ConfigValue = Null, PlanValue = Unknown\<rparr> = Known False"
  using
    default_resolution [of "\<lparr>ConfigValue = Known ''read'', PlanValue = Known ''read''\<rparr>"
      "\<lparr>ConfigValue = Null, PlanValue = Unknown\<rparr>"
      "\<lparr>ConfigValue = Known True, PlanValue = Known True\<rparr>"]
    default_resolution [of "\<lparr>ConfigValue = Null, PlanValue = Null\<rparr>"
      "\<lparr>ConfigValue = Null, PlanValue = Null\<rparr>"
      "\<lparr>ConfigValue = Null, PlanValue = Unknown\<rparr>"]
    default_resolution [of "\<lparr>ConfigValue = Null, PlanValue = Null\<rparr>"
      "\<lparr>ConfigValue = Null, PlanValue = Known 500\<rparr>"
      "\<lparr>ConfigValue = Null, PlanValue = Unknown\<rparr>"]
  by simp

text \<open>
  The claim as stated fails where the planned value is null: the resolver sets the
  default although the planned value is not unknown.
\<close>

theorem default_resolution_counterexample:
  "PlanModifyInt64 max_buckets_default \<lparr>ConfigValue = Null, PlanValue = Null\<rparr> = Known 1000 \<and>
   PlanValue \<lparr>ConfigValue = Null, PlanValue = Null :: (64 word) tfvalue\<rparr> \<noteq> Known 1000 \<and>
   \<not> IsUnknown (PlanValue \<lparr>ConfigValue = Null, PlanValue = Null :: (64 word) tfvalue\<rparr>)"
  by (simp add: PlanModifyInt64_def max_buckets_default_def)

subsection \<open>Identity round trip\<close>

lemma SplitN_two_found:
  "CHR ''$'' \<notin> set t \<Longrightarrow> SplitN (t @ CHR ''$'' # u) (CHR ''$'') 2 = [t, u]"
  by (induction t) (auto simp: numeral_2_eq_2)

lemma SplitN_two_missing:
  "CHR ''$'' \<notin> set u \<Longrightarrow> SplitN u (CHR ''$'') 2 = [u]"
  by (simp add: numeral_2_eq_2)

lemma read_attributes_identity:
  "Tenant (read_attributes user d) = fst (read_identity (User_ID user)) \<and>
   Username (read_attributes user d) = snd (read_identity (User_ID user))"
  by (simp add: read_attributes_def Let_def split: prod.splits option.splits)

lemma read_identity_qualified:
  "CHR ''$'' \<notin> set t \<Longrightarrow> read_identity (t @ CHR ''$'' # u) = (Known t, Known u)"
  by (simp add: read_identity_def SplitN_two_found)

lemma read_identity_bare:
  "CHR ''$'' \<notin> set u \<Longrightarrow> read_identity u = (Null, Known u)"
  by (simp add: read_identity_def SplitN_two_missing)

lemma create_request_id: "User_ID (create_request data) = create_id (Tenant data) (Username data)"
  by (simp add: create_request_def zero_User_def Let_def)

text \<open>
  C3 (as amended). For every username without a dollar sign and every tenant that is
  absent or itself without a dollar sign, Read's decomposition of the id that Create
  formed gives the tenant and the username back: the (tenant, username) pair of a
  tenant-qualified id, and (absent, username) for a bare id.
\<close>

theorem identity_roundtrip:
  assumes u: "Username data = Known u" and nu: "CHR ''$'' \<notin> set u"
    and t: "Tenant data = Null \<or> (\<exists>t. Tenant data = Known t \<and> CHR ''$'' \<notin> set t)"
    and id: "User_ID user = User_ID (create_request data)"
  shows "Tenant (read_attributes user d) = Tenant data \<and>
         Username (read_attributes user d) = Username data"
proof -
  from t show ?thesis
  proof
    assume "Tenant data = Null"
    then have "User_ID user = u"
      using u id by (simp add: create_request_id create_id_def)
    then show ?thesis
      using nu u \<open>Tenant data = Null\<close> by (simp add: read_attributes_identity read_identity_bare)
  next
    assume "\<exists>t. Tenant data = Known t \<and> CHR ''$'' \<notin> set t"
    then obtain t where tk: "Tenant data = Known t" and nt: "CHR ''$'' \<notin> set t" by blast
    then have "User_ID user = t @ CHR ''$'' # u"
      using u id by (simp add: create_request_id create_id_def)
    then show ?thesis
      using nt u tk by (simp add: read_attributes_identity read_identity_qualified)
  qed
qed

theorem identity_roundtrip_witness:
  "Tenant (read_attributes (remote_user ''acme$alice'' []) alice) = Known ''acme'' \<and>
   Username (read_attributes (remote_user ''acme$alice'' []) alice) = Known ''alice''"
  using identity_roundtrip [of "alice\<lparr>Tenant := Known ''acme''\<rparr>" "''alice''"
      "remote_user ''acme$alice'' []" alice]
  by (simp add: alice_def remote_user_def create_request_id create_id_def zero_User_def)

text \<open>
  The claim as stated puts no condition on the tenant: a tenant with a dollar sign is cut
  at its own dollar sign.
\<close>

theorem identity_roundtrip_counterexample:
  "CHR ''$'' \<notin> set ''c'' \<and>
   User_ID (create_request (alice\<lparr>Tenant := Known ''a$b'', Username := Known ''c''\<rparr>)) = ''a$b$c'' \<and>
   Tenant (read_attributes (remote_user ''a$b$c'' []) alice) = Known ''a'' \<and>
   Username (read_attributes (remote_user ''a$b$c'' []) alice) = Known ''b$c'' \<and>
   Tenant (read_attributes (remote_user ''a$b$c'' []) alice) \<noteq> Known ''a$b'' \<and>
   Username (read_attributes (remote_user ''a$b$c'' []) alice) \<noteq> Known ''c''"
  by (simp add: alice_def remote_user_def create_request_id create_id_def zero_User_def
        read_attributes_identity read_identity_def numeral_2_eq_2)

subsection \<open>Create: the key pair of the response\<close>

text \<open>
  C2. On Create with key generation requested (\<open>generate_s3_credentials\<close> true or unset),
  when the remote creation succeeds: if the response holds exactly one key pair, the
  returned record's access key and secret key are that pair's; if it holds none or more
  than one, Create fails with an error on each of the two fields that reports the number
  of key pairs received.
\<close>

theorem create_key_count:
  assumes gen: "GenerateS3Credentials data = Known True \<or> GenerateS3Credentials data = Null"
    and ok: "api_CreateUser api (create_request data) r = (Inr createdUser, r')"
  shows "(\<forall>k. User_Keys createdUser = [k] \<longrightarrow>
            State (UserResource_Create api data r) =
              StateSet (data\<lparr>UserId := Known (User_ID createdUser),
                              AccessKey := Known (Key_AccessKey k),
                              SecretKey := Known (Key_SecretKey k)\<rparr>) \<and>
            \<not> HasError (Diagnostics (UserResource_Create api data r))) \<and>
         (length (User_Keys createdUser) \<noteq> 1 \<longrightarrow>
            HasError (Diagnostics (UserResource_Create api data r)) \<and>
            Diagnostics (UserResource_Create api data r) =
              [\<lparr>Severity = SeverityError, AttributePath = Some ''access_key'',
                 Summary = ''api didn't return exactly one s3 key pair'',
                 Detail = ''expected one s3 api key pair in api response, got '' @
                          show_nat (length (User_Keys createdUser))\<rparr>,
               \<lparr>Severity = SeverityError, AttributePath = Some ''secret_key'',
                 Summary = ''api didn't return exactly one s3 key pair'',
                 Detail = ''expected one s3 api key pair in api response, got '' @
                          show_nat (length (User_Keys createdUser))\<rparr>])"
proof -
  have g: "ValueBool (GenerateS3Credentials data) \<or> IsNull (GenerateS3Credentials data)"
    using gen by auto
  show ?thesis
    using g ok
    by (simp add: UserResource_Create_def Let_def Diagnostics_AddAttributeError
          Append_diag_def key_count_detail_def HasError_def)
qed

theorem create_key_count_witness:
  "State (UserResource_Create
       (scripted_admin (Inr (remote_user ''alice'' [s3_key ''AK1'' ''SK1''])) None (Inr None))
       alice 0) =
     StateSet (alice\<lparr>AccessKey := Known ''AK1'', SecretKey := Known ''SK1''\<rparr>) \<and>
   Diagnostics (UserResource_Create
       (scripted_admin (Inr (remote_user ''alice'' [])) None (Inr None)) alice 0) =
     [\<lparr>Severity = SeverityError, AttributePath = Some ''access_key'',
        Summary = ''api didn't return exactly one s3 key pair'',
        Detail = ''expected one s3 api key pair in api response, got 0''\<rparr>,
      \<lparr>Severity = SeverityError, AttributePath = Some ''secret_key'',
        Summary = ''api didn't return exactly one s3 key pair'',
        Detail = ''expected one s3 api key pair in api response, got 0''\<rparr>]"
  using
    create_key_count [of alice
      "scripted_admin (Inr (remote_user ''alice'' [s3_key ''AK1'' ''SK1''])) None (Inr None)"
      0 "remote_user ''alice'' [s3_key ''AK1'' ''SK1'']" 1]
    create_key_count [of alice
      "scripted_admin (Inr (remote_user ''alice'' [])) None (Inr None)"
      0 "remote_user ''alice'' []" 1]
  by (simp add: alice_def scripted_admin_def remote_user_def zero_User_def s3_key_def
        show_nat_digit)

subsection \<open>Read: not found and permission denied\<close>

text \<open>
  Read of a user removes the record on the reason \<open>NoSuchUser\<close> and reports every
  other error, \<open>AccessDenied\<close> included, leaving the record in place. Read of a bucket
  compares the error code with the status numbers: it removes the record on the code
  \<open>404\<close> and on no other code, and reports an error on every other one.
\<close>

lemma read_on_reported_codes:
  "(api_GetUser api (zero_User\<lparr>User_ID := ValueString (UserId data)\<rparr>) r = (Inl e, r') \<and>
      is_ErrNoSuchUser e \<longrightarrow>
      State (UserResource_Read api data p r) = StateRemoved \<and>
      \<not> HasError (Diagnostics (UserResource_Read api data p r))) \<and>
   (api_GetUser api (zero_User\<lparr>User_ID := ValueString (UserId data)\<rparr>) r =
      (Inl (APIError ''AccessDenied'' msg), r') \<longrightarrow>
      State (UserResource_Read api data p r) = StateUnchanged \<and>
      HasError (Diagnostics (UserResource_Read api data p r))) \<and>
   (api_HeadBucket s3 (ValueString (BucketId bucket)) s = (Some (APIError ''404'' msg), s') \<longrightarrow>
      State (BucketResource_Read s3 bucket p s) = StateRemoved \<and>
      \<not> HasError (Diagnostics (BucketResource_Read s3 bucket p s))) \<and>
   (api_HeadBucket s3 (ValueString (BucketId bucket)) s = (Some (APIError ''403'' msg), s') \<longrightarrow>
      State (BucketResource_Read s3 bucket p s) = StateUnchanged \<and>
      HasError (Diagnostics (BucketResource_Read s3 bucket p s)))"
  by (simp add: UserResource_Read_def BucketResource_Read_def Let_def Diagnostics_AddError
        HasError_Append_diag)

lemma bucket_read_removes_only_on_404:
  "api_HeadBucket s3 (ValueString (BucketId bucket)) s = (Some e, s') \<Longrightarrow>
   (State (BucketResource_Read s3 bucket p s) = StateRemoved) = (\<exists>msg. e = APIError ''404'' msg)"
  by (cases e) (simp_all add: BucketResource_Read_def Let_def)

text \<open>
  C6. The claim asks that Read of a bucket the remote system reports as not found
  removes the local record and reports no error. The object-storage client reports a
  missing bucket on the head request with the error code \<open>NotFound\<close> (the request has
  no response body, so the code is the status text), which the comparison with \<open>404\<close>
  misses: Read keeps the record and reports \<open>could not head bucket\<close>.
\<close>

theorem bucket_read_not_found_keeps_record:
  "State (BucketResource_Read (scripted_s3 (Some (APIError ''NotFound'' ''Not Found'')))
      test_bucket Map.empty 0) = StateUnchanged \<and>
   Diagnostics (BucketResource_Read (scripted_s3 (Some (APIError ''NotFound'' ''Not Found'')))
      test_bucket Map.empty 0) =
     [\<lparr>Severity = SeverityError, AttributePath = None, Summary = ''could not head bucket'',
        Detail = ''Not Found''\<rparr>]"
  by (simp add: BucketResource_Read_def Let_def Diagnostics_AddError Append_diag_def
        scripted_s3_def)

subsection \<open>Delete of an absent entity\<close>

text \<open>
  Delete of a user swallows exactly the error \<open>NoSuchUser\<close>; Delete of a bucket has no
  such test and reports every error of the remote call.
\<close>

lemma user_delete_no_such_user:
  "api_RemoveUser api
     (zero_User\<lparr>User_ID := ValueString (UserId data),
                User_PurgeData := Some (if ValueBool (PurgeDataOnDelete data) then 1 else 0)\<rparr>) r
     = (Some e, r') \<Longrightarrow>
   HasError (Diagnostics (UserResource_Delete api data r)) = (\<not> is_ErrNoSuchUser e)"
  by (simp add: UserResource_Delete_def Let_def Diagnostics_AddError HasError_Append_diag)

lemma bucket_delete_surfaces_every_error:
  "api_DeleteBucket s3 (ValueString (BucketId bucket)) s = (Some e, s') \<Longrightarrow>
   HasError (Diagnostics (BucketResource_Delete s3 bucket s))"
  by (simp add: BucketResource_Delete_def Let_def Diagnostics_AddError HasError_Append_diag)

text \<open>
  C7. The claim asks that Delete of a bucket the remote system reports as not found
  succeeds with no error. The code reports the error: here the remote call answers with
  the error code 404 and Delete ends with the diagnostic \<open>could not delete bucket\<close>.
\<close>

theorem bucket_delete_not_found_fails:
  "Diagnostics (BucketResource_Delete (scripted_s3 (Some (APIError ''404'' ''Not Found'')))
       test_bucket 0) =
     [\<lparr>Severity = SeverityError, AttributePath = None, Summary = ''could not delete bucket'',
        Detail = ''Not Found''\<rparr>] \<and>
   HasError (Diagnostics (BucketResource_Delete (scripted_s3 (Some (APIError ''404'' ''Not Found'')))
       test_bucket 0))"
  by (simp add: BucketResource_Delete_def Let_def Diagnostics_AddError Append_diag_def
        HasError_def scripted_s3_def)

subsection \<open>Caps of the create and modify requests\<close>

text \<open>
  C8. The claim asks that each sent cap carries the declared cap's type and permission.
  The code fills the permission of every sent cap from the declared type: the declared
  cap (users, read) is sent as (users, users), by Create and by Update alike.
\<close>

theorem request_caps_perm_is_type:
  "User_Caps (create_request (alice\<lparr>Caps := [\<lparr>Type = Known ''users'', Perm = Known ''read''\<rparr>]\<rparr>)) =
     [\<lparr>Cap_Type = ''users'', Cap_Perm = ''users''\<rparr>] \<and>
   User_Caps (update_request (alice\<lparr>Caps := [\<lparr>Type = Known ''users'', Perm = Known ''read''\<rparr>]\<rparr>)) =
     [\<lparr>Cap_Type = ''users'', Cap_Perm = ''users''\<rparr>]"
  by (simp add: create_request_def update_request_def request_caps_def zero_User_def Let_def)

subsection \<open>Update: the loop over the remote keys\<close>

text \<open>
  The loop changes only the secret key of the record, never drops a call it has issued,
  and, with exclusive credentials unset or true, issues a removal for every remote key
  whose access key is not the recorded one, whatever the earlier removals answered.
\<close>

lemma update_key_keeps:
  "AccessKey (fst (update_key api uid k st)) = AccessKey (fst st) \<and>
   ExclusiveS3Credentials (fst (update_key api uid k st)) = ExclusiveS3Credentials (fst st) \<and>
   GenerateS3Credentials (fst (update_key api uid k st)) = GenerateS3Credentials (fst st) \<and>
   State (snd (update_key api uid k st)) = State (snd st)"
  by (simp add: update_key_def Let_def split: prod.splits option.splits)

lemma update_keys_keeps:
  "AccessKey (fst (update_keys api uid ks st)) = AccessKey (fst st) \<and>
   ExclusiveS3Credentials (fst (update_keys api uid ks st)) = ExclusiveS3Credentials (fst st) \<and>
   GenerateS3Credentials (fst (update_keys api uid ks st)) = GenerateS3Credentials (fst st) \<and>
   State (snd (update_keys api uid ks st)) = State (snd st)"
  by (induction ks arbitrary: st) (simp_all add: update_key_keeps)






lemma update_request_id: "User_ID (update_request data) = ValueString (UserId data)"
  by (simp add: update_request_def zero_User_def)

subsection \<open>Update: the key-creation response\<close>

text \<open>
  A response without the expected pair is reported as an error when the response is a
  list, empty or not; a nil response panics.
\<close>

lemma create_key_nil_panics:
  assumes "IsUnknown (SecretKey data)"
    and "fst (api_CreateKey api
           \<lparr>Key_UID = User_ID user,
              Key_AccessKey = ValueString (if IsUnknown (AccessKey data)
                                           then Known (random_access_key rnd) else AccessKey data),
              Key_SecretKey = [], Key_KeyType = ''s3'', Key_GenerateKey = Some True\<rparr>
           (Remote resp)) = Inr None"
  shows "panicked (create_key api rnd user data resp)"
  using assms by (auto simp: create_key_def Let_def split: prod.splits)

lemma create_key_mismatch_returns:
  assumes "IsUnknown (SecretKey data)"
    and "fst (api_CreateKey api
           \<lparr>Key_UID = User_ID user,
              Key_AccessKey = ValueString (if IsUnknown (AccessKey data)
                                           then Known (random_access_key rnd) else AccessKey data),
              Key_SecretKey = [], Key_KeyType = ''s3'', Key_GenerateKey = Some True\<rparr>
           (Remote resp)) = Inr (Some ks)"
    and "find (\<lambda>k. Key_AccessKey k = ValueString (if IsUnknown (AccessKey data)
                                           then Known (random_access_key rnd) else AccessKey data)) ks = None"
  shows "\<not> panicked (create_key api rnd user data resp) \<and>
         HasError (Diagnostics (the_response (create_key api rnd user data resp)))"
  using assms
  by (auto simp: create_key_def Let_def Diagnostics_AddError HasError_Append_diag split: prod.splits)

text \<open>
  The one answer on which Update panics is a successful key creation whose response is
  the nil pointer. The administrative client answers every successful key creation with
  the address of the list it decoded, a list that may be nil or empty (the empty list
  here), so it never gives that answer.
\<close>

lemma update_panics_on_nil_pointer:
  "panicked (UserResource_Update
      (scripted_admin (Inr (remote_user ''alice'' [])) None (Inr None)) rnd alice Map.empty 0)"
  by (simp add: UserResource_Update_def Let_def scripted_admin_def remote_user_def zero_User_def
        alice_def create_key_def)





subsection \<open>Credentials switched off\<close>

text \<open>
  With \<open>generate_s3_credentials\<close> explicitly false, Create issues the creation call only,
  asks for no key, and returns null keys; Read issues the lookup only and returns null
  keys.
\<close>

lemma create_generate_false:
  assumes "GenerateS3Credentials data = Known False"
  shows "Calls (UserResource_Create api data r) = [CallCreateUser (create_request data)] \<and>
         User_GenerateKey (create_request data) = Some False \<and>
         (case State (UserResource_Create api data r) of
            StateSet d \<Rightarrow> AccessKey d = Null \<and> SecretKey d = Null
          | _ \<Rightarrow> True)"
  using assms
  by (auto simp: UserResource_Create_def create_request_def zero_User_def Let_def
        split: prod.splits sum.splits)



lemma read_credentials_generate_false:
  assumes "GenerateS3Credentials data = Known False"
  shows "AccessKey (fst (read_credentials user data resp)) = Null \<and>
         SecretKey (fst (read_credentials user data resp)) = Null"
  using assms by (simp add: read_credentials_def)

lemma read_attributes_generate:
  "GenerateS3Credentials (read_attributes user data) = GenerateS3Credentials data \<and>
   AccessKey (read_attributes user data) = AccessKey data \<and>
   ExclusiveS3Credentials (read_attributes user data) = ExclusiveS3Credentials data"
  by (simp add: read_attributes_def Let_def split: prod.splits option.splits)

lemma read_generate_false:
  assumes "GenerateS3Credentials data = Known False"
  shows "case State (UserResource_Read api data p r) of
            StateSet d \<Rightarrow> AccessKey d = Null \<and> SecretKey d = Null
          | _ \<Rightarrow> True"
  using assms
  by (simp add: UserResource_Read_def Let_def case_prod_beta read_attributes_generate
        read_credentials_generate_false split: sum.splits)

text \<open>
  C5. The claim asks that Update issues no key-create and no key-remove call when
  \<open>generate_s3_credentials\<close> is explicitly false. Update never reads that field: with
  the planned secret key unknown it removes the remote key and creates a new one.
\<close>

theorem update_generate_false_manages_keys:
  "Calls (the_response (UserResource_Update
      (scripted_admin (Inr (remote_user ''alice'' [s3_key ''AK2'' ''SK2''])) None (Inr (Some [])))
      rnd
      (alice\<lparr>GenerateS3Credentials := Known False, AccessKey := Unknown, SecretKey := Unknown\<rparr>)
      Map.empty 0)) =
   [CallModifyUser (update_request
      (alice\<lparr>GenerateS3Credentials := Known False, AccessKey := Unknown, SecretKey := Unknown\<rparr>)),
    CallRemoveKey ((s3_key ''AK2'' ''SK2'')\<lparr>Key_UID := ''alice''\<rparr>),
    CallCreateKey \<lparr>Key_UID = ''alice'', Key_AccessKey = random_access_key rnd, Key_SecretKey = [],
      Key_KeyType = ''s3'', Key_GenerateKey = Some True\<rparr>]"
  by (simp add: UserResource_Update_def Let_def scripted_admin_def remote_user_def zero_User_def
        alice_def create_key_def update_key_def s3_key_def)

subsection \<open>Exclusive credentials left unset\<close>
















subsection \<open>Update: foreign keys only\<close>

text \<open>
  On keys none of which is the recorded one, and with exclusive credentials unset or
  true, the loop leaves the record as it is and issues one removal per key, in the order
  of the keys and each from the remote state the removal before left; it appends the
  diagnostic of every removal that failed and goes on to the next key.
\<close>

lemma update_keys_foreign:
  assumes "\<forall>k\<in>set ks. Key_AccessKey k \<noteq> ValueString (AccessKey data)"
    and "ValueBool (ExclusiveS3Credentials data) \<or> IsNull (ExclusiveS3Credentials data)"
    and "remove_each api uid ks (Remote resp) = (answers, r2)"
  shows "fst (update_keys api uid ks (data, resp)) = data \<and>
         Calls (snd (update_keys api uid ks (data, resp))) =
           Calls resp @ map (\<lambda>k. CallRemoveKey (k\<lparr>Key_UID := uid\<rparr>)) ks \<and>
         Remote (snd (update_keys api uid ks (data, resp))) = r2 \<and>
         Diagnostics (snd (update_keys api uid ks (data, resp))) =
           foldl (\<lambda>ds d. Append_diag d ds) (Diagnostics resp) (removal_diagnostics ks answers) \<and>
         State (snd (update_keys api uid ks (data, resp))) = State resp \<and>
         Private (snd (update_keys api uid ks (data, resp))) = Private resp"
  using assms
proof (induction ks arbitrary: resp answers)
  case Nil
  then show ?case by auto
next
  case (Cons k ks)
  define a where "a = api_RemoveKey api (k\<lparr>Key_UID := uid\<rparr>) (Remote resp)"
  define resp1 where "resp1 = snd (update_key api uid k (data, resp))"
  have foreign: "Key_AccessKey k \<noteq> ValueString (AccessKey data)"
    using Cons.prems(1) by simp
  have step: "update_key api uid k (data, resp) = (data, resp1)"
    unfolding resp1_def using foreign Cons.prems(2)
    by (simp add: update_key_def Let_def case_prod_beta split: option.splits)
  have r1: "Remote resp1 = snd a"
    unfolding resp1_def a_def using foreign Cons.prems(2)
    by (simp add: update_key_def Let_def case_prod_beta split: option.splits)
  have c1: "Calls resp1 = Calls resp @ [CallRemoveKey (k\<lparr>Key_UID := uid\<rparr>)]"
    unfolding resp1_def using foreign Cons.prems(2)
    by (simp add: update_key_def Let_def case_prod_beta split: option.splits)
  have d1: "Diagnostics resp1 =
      foldl (\<lambda>ds d. Append_diag d ds) (Diagnostics resp) (removal_diagnostics [k] [fst a])"
    unfolding resp1_def a_def using foreign Cons.prems(2)
    by (simp add: update_key_def Let_def case_prod_beta Diagnostics_AddError split: option.splits)
  have s1: "State resp1 = State resp \<and> Private resp1 = Private resp"
    unfolding resp1_def using foreign Cons.prems(2)
    by (simp add: update_key_def Let_def case_prod_beta split: option.splits)
  define rest where "rest = fst (remove_each api uid ks (snd a))"
  have rest: "remove_each api uid ks (snd a) = (rest, r2)"
    using Cons.prems(3) by (auto simp: Let_def a_def rest_def prod_eq_iff)
  have ans: "answers = fst a # rest"
    using Cons.prems(3) by (auto simp: Let_def a_def rest_def prod_eq_iff)
  have ih: "fst (update_keys api uid ks (data, resp1)) = data \<and>
         Calls (snd (update_keys api uid ks (data, resp1))) =
           Calls resp1 @ map (\<lambda>k. CallRemoveKey (k\<lparr>Key_UID := uid\<rparr>)) ks \<and>
         Remote (snd (update_keys api uid ks (data, resp1))) = r2 \<and>
         Diagnostics (snd (update_keys api uid ks (data, resp1))) =
           foldl (\<lambda>ds d. Append_diag d ds) (Diagnostics resp1) (removal_diagnostics ks rest) \<and>
         State (snd (update_keys api uid ks (data, resp1))) = State resp1 \<and>
         Private (snd (update_keys api uid ks (data, resp1))) = Private resp1"
    using Cons.IH [of resp1 rest] Cons.prems(1,2) rest r1 by simp
  have diag: "foldl (\<lambda>ds d. Append_diag d ds) (Diagnostics resp1) (removal_diagnostics ks rest) =
      foldl (\<lambda>ds d. Append_diag d ds) (Diagnostics resp) (removal_diagnostics (k # ks) answers)"
    unfolding d1 ans by (cases "fst a") simp_all
  show ?case
    using ih by (simp add: step c1 s1 diag)
qed


text \<open>
  C1. Update of a user whose planned secret key is unknown and whose recorded access key
  is AK1, when no key of the modify response is AK1 (in the scenario of the claim the
  response lists exactly one key, AK2) and \<open>exclusive_s3_credentials\<close> is unset or
  true: Update issues the removal of every listed key, one after the other, then a key
  creation with the access key AK1, and, the creation answering with a pair for AK1,
  returns the record with the access key AK1 and the secret of that pair. A removal that
  fails is recorded as the diagnostic \<open>could not remove access key\<close> of its key and
  stops neither the removals of the remaining keys nor the creation: the calls are the
  same whatever the removals answer.
\<close>

theorem update_replaces_foreign_key:
  assumes sk: "SecretKey data = Unknown"
    and ak: "AccessKey data = Known ak1"
    and ex: "ExclusiveS3Credentials data = Null \<or> ExclusiveS3Credentials data = Known True"
    and modify: "api_ModifyUser api (update_request data) r = (Inr user, r1)"
    and foreign: "\<forall>k\<in>set (User_Keys user). Key_AccessKey k \<noteq> ak1"
    and removals: "remove_each api (User_ID user) (User_Keys user) r1 = (answers, r2)"
    and create: "api_CreateKey api
                   \<lparr>Key_UID = User_ID user, Key_AccessKey = ak1, Key_SecretKey = [],
                      Key_KeyType = ''s3'', Key_GenerateKey = Some True\<rparr> r2
                 = (Inr (Some created), r3)"
    and pair: "find (\<lambda>k. Key_AccessKey k = ak1) created = Some k1"
  shows "\<not> panicked (UserResource_Update api rnd data p r) \<and>
         Calls (the_response (UserResource_Update api rnd data p r)) =
           CallModifyUser (update_request data) #
           map (\<lambda>k. CallRemoveKey (k\<lparr>Key_UID := User_ID user\<rparr>)) (User_Keys user) @
           [CallCreateKey \<lparr>Key_UID = User_ID user, Key_AccessKey = ak1, Key_SecretKey = [],
                            Key_KeyType = ''s3'', Key_GenerateKey = Some True\<rparr>] \<and>
         State (the_response (UserResource_Update api rnd data p r)) =
           StateSet (data\<lparr>AccessKey := Known ak1, SecretKey := Known (Key_SecretKey k1)\<rparr>) \<and>
         Diagnostics (the_response (UserResource_Update api rnd data p r)) =
           foldl (\<lambda>ds d. Append_diag d ds) [] (removal_diagnostics (User_Keys user) answers)"
proof -
  have excl: "ValueBool (ExclusiveS3Credentials data) \<or> IsNull (ExclusiveS3Credentials data)"
    using ex by auto
  define resp0 :: "('a, UserResourceModel) response"
    where "resp0 = issue (CallModifyUser (update_request data)) r1 (new_response p r)"
  define L where "L = update_keys api (User_ID user) (User_Keys user) (data, resp0)"
  have fk: "\<forall>k\<in>set (User_Keys user). Key_AccessKey k \<noteq> ValueString (AccessKey data)"
    using foreign ak by simp
  have rm0: "remove_each api (User_ID user) (User_Keys user) (Remote resp0) = (answers, r2)"
    using removals by (simp add: resp0_def)
  note loop = update_keys_foreign [OF fk excl rm0, folded L_def]
  have fstL: "fst L = data"
    using loop by simp
  have same: "data\<lparr>AccessKey := Known ak1, SecretKey := Known s\<rparr> = data\<lparr>SecretKey := Known s\<rparr>" for s
    using ak by auto
  have ck: "create_key api rnd user data (snd L) =
              Returns (State_Set (data\<lparr>SecretKey := Known (Key_SecretKey k1)\<rparr>)
                (SetKey ''mark_unknown_secret_key'' ''0''
                   (SetKey ''mark_unknown_access_key'' ''0''
                      (issue (CallCreateKey \<lparr>Key_UID = User_ID user, Key_AccessKey = ak1,
                          Key_SecretKey = [], Key_KeyType = ''s3'', Key_GenerateKey = Some True\<rparr>)
                         r3 (snd L)))))"
    using ak create pair loop by (simp add: create_key_def Let_def)
  have upd: "UserResource_Update api rnd data p r = create_key api rnd user data (snd L)"
    using sk modify
    by (simp add: UserResource_Update_def Let_def resp0_def [symmetric] L_def [symmetric]
          case_prod_beta fstL)
  have calls0: "Calls resp0 = [CallModifyUser (update_request data)]"
    and diags0: "Diagnostics resp0 = []"
    by (simp_all add: resp0_def)
  show ?thesis
    using loop by (simp add: upd ck calls0 diags0 same)
qed

theorem update_replaces_foreign_key_witness:
  "Calls (the_response (UserResource_Update
        (failing_removal_admin (Inr (remote_user ''alice'' [s3_key ''AK2'' ''SK2''])) ''AK2''
           (Inr (Some [s3_key ''AK1'' ''SK1''])))
        (\<lambda>i. 0) alice Map.empty 0)) =
     [CallModifyUser (update_request alice),
      CallRemoveKey ((s3_key ''AK2'' ''SK2'')\<lparr>Key_UID := ''alice''\<rparr>),
      CallCreateKey \<lparr>Key_UID = ''alice'', Key_AccessKey = ''AK1'', Key_SecretKey = [],
                      Key_KeyType = ''s3'', Key_GenerateKey = Some True\<rparr>] \<and>
   State (the_response (UserResource_Update
        (failing_removal_admin (Inr (remote_user ''alice'' [s3_key ''AK2'' ''SK2''])) ''AK2''
           (Inr (Some [s3_key ''AK1'' ''SK1''])))
        (\<lambda>i. 0) alice Map.empty 0)) =
     StateSet (alice\<lparr>AccessKey := Known ''AK1'', SecretKey := Known ''SK1''\<rparr>) \<and>
   Diagnostics (the_response (UserResource_Update
        (failing_removal_admin (Inr (remote_user ''alice'' [s3_key ''AK2'' ''SK2''])) ''AK2''
           (Inr (Some [s3_key ''AK1'' ''SK1''])))
        (\<lambda>i. 0) alice Map.empty 0)) =
     [\<lparr>Severity = SeverityError, AttributePath = None,
        Summary = ''could not remove access key '' @ quote @ ''AK2'' @ quote,
        Detail = ''timeout''\<rparr>] \<and>
   Calls (the_response (UserResource_Update
        (failing_removal_admin
           (Inr (remote_user ''alice'' [s3_key ''AK2'' ''SK2'', s3_key ''AK3'' ''SK3''])) ''AK2''
           (Inr (Some [s3_key ''AK1'' ''SK1''])))
        (\<lambda>i. 0) alice Map.empty 0)) =
     [CallModifyUser (update_request alice),
      CallRemoveKey ((s3_key ''AK2'' ''SK2'')\<lparr>Key_UID := ''alice''\<rparr>),
      CallRemoveKey ((s3_key ''AK3'' ''SK3'')\<lparr>Key_UID := ''alice''\<rparr>),
      CallCreateKey \<lparr>Key_UID = ''alice'', Key_AccessKey = ''AK1'', Key_SecretKey = [],
                      Key_KeyType = ''s3'', Key_GenerateKey = Some True\<rparr>] \<and>
   Diagnostics (the_response (UserResource_Update
        (failing_removal_admin
           (Inr (remote_user ''alice'' [s3_key ''AK2'' ''SK2'', s3_key ''AK3'' ''SK3''])) ''AK2''
           (Inr (Some [s3_key ''AK1'' ''SK1''])))
        (\<lambda>i. 0) alice Map.empty 0)) =
     [\<lparr>Severity = SeverityError, AttributePath = None,
        Summary = ''could not remove access key '' @ quote @ ''AK2'' @ quote,
        Detail = ''timeout''\<rparr>]"
proof -
  note one = update_replaces_foreign_key [where
      data = alice and ?ak1.0 = "''AK1''"
      and api = "failing_removal_admin (Inr (remote_user ''alice'' [s3_key ''AK2'' ''SK2''])) ''AK2''
           (Inr (Some [s3_key ''AK1'' ''SK1'']))"
      and r = 0 and user = "remote_user ''alice'' [s3_key ''AK2'' ''SK2'']" and ?r1.0 = 1
      and answers = "[Some (OtherError ''timeout'')]" and ?r2.0 = 2
      and created = "[s3_key ''AK1'' ''SK1'']" and ?r3.0 = 3 and ?k1.0 = "s3_key ''AK1'' ''SK1''"
      and rnd = "\<lambda>i. 0" and p = Map.empty]
  note two = update_replaces_foreign_key [where
      data = alice and ?ak1.0 = "''AK1''"
      and api = "failing_removal_admin
           (Inr (remote_user ''alice'' [s3_key ''AK2'' ''SK2'', s3_key ''AK3'' ''SK3''])) ''AK2''
           (Inr (Some [s3_key ''AK1'' ''SK1'']))"
      and r = 0
      and user = "remote_user ''alice'' [s3_key ''AK2'' ''SK2'', s3_key ''AK3'' ''SK3'']"
      and ?r1.0 = 1
      and answers = "[Some (OtherError ''timeout''), None]" and ?r2.0 = 3
      and created = "[s3_key ''AK1'' ''SK1'']" and ?r3.0 = 4 and ?k1.0 = "s3_key ''AK1'' ''SK1''"
      and rnd = "\<lambda>i. 0" and p = Map.empty]
  have a: "Calls (the_response (UserResource_Update
        (failing_removal_admin (Inr (remote_user ''alice'' [s3_key ''AK2'' ''SK2''])) ''AK2''
           (Inr (Some [s3_key ''AK1'' ''SK1''])))
        (\<lambda>i. 0) alice Map.empty 0)) =
     [CallModifyUser (update_request alice),
      CallRemoveKey ((s3_key ''AK2'' ''SK2'')\<lparr>Key_UID := ''alice''\<rparr>),
      CallCreateKey \<lparr>Key_UID = ''alice'', Key_AccessKey = ''AK1'', Key_SecretKey = [],
                      Key_KeyType = ''s3'', Key_GenerateKey = Some True\<rparr>] \<and>
   State (the_response (UserResource_Update
        (failing_removal_admin (Inr (remote_user ''alice'' [s3_key ''AK2'' ''SK2''])) ''AK2''
           (Inr (Some [s3_key ''AK1'' ''SK1''])))
        (\<lambda>i. 0) alice Map.empty 0)) =
     StateSet (alice\<lparr>AccessKey := Known ''AK1'', SecretKey := Known ''SK1''\<rparr>) \<and>
   Diagnostics (the_response (UserResource_Update
        (failing_removal_admin (Inr (remote_user ''alice'' [s3_key ''AK2'' ''SK2''])) ''AK2''
           (Inr (Some [s3_key ''AK1'' ''SK1''])))
        (\<lambda>i. 0) alice Map.empty 0)) =
     [\<lparr>Severity = SeverityError, AttributePath = None,
        Summary = ''could not remove access key '' @ quote @ ''AK2'' @ quote,
        Detail = ''timeout''\<rparr>]"
    using one
    by (simp add: alice_def failing_removal_admin_def scripted_admin_def remote_user_def
          zero_User_def s3_key_def update_request_def request_caps_def Append_diag_def Let_def)
  have b: "Calls (the_response (UserResource_Update
        (failing_removal_admin
           (Inr (remote_user ''alice'' [s3_key ''AK2'' ''SK2'', s3_key ''AK3'' ''SK3''])) ''AK2''
           (Inr (Some [s3_key ''AK1'' ''SK1''])))
        (\<lambda>i. 0) alice Map.empty 0)) =
     [CallModifyUser (update_request alice),
      CallRemoveKey ((s3_key ''AK2'' ''SK2'')\<lparr>Key_UID := ''alice''\<rparr>),
      CallRemoveKey ((s3_key ''AK3'' ''SK3'')\<lparr>Key_UID := ''alice''\<rparr>),
      CallCreateKey \<lparr>Key_UID = ''alice'', Key_AccessKey = ''AK1'', Key_SecretKey = [],
                      Key_KeyType = ''s3'', Key_GenerateKey = Some True\<rparr>] \<and>
   Diagnostics (the_response (UserResource_Update
        (failing_removal_admin
           (Inr (remote_user ''alice'' [s3_key ''AK2'' ''SK2'', s3_key ''AK3'' ''SK3''])) ''AK2''
           (Inr (Some [s3_key ''AK1'' ''SK1''])))
        (\<lambda>i. 0) alice Map.empty 0)) =
     [\<lparr>Severity = SeverityError, AttributePath = None,
        Summary = ''could not remove access key '' @ quote @ ''AK2'' @ quote,
        Detail = ''timeout''\<rparr>]"
    using two
    by (simp add: alice_def failing_removal_admin_def scripted_admin_def remote_user_def
          zero_User_def s3_key_def update_request_def request_caps_def Append_diag_def Let_def)
  from a b show ?thesis by simp
qed


end
